theory Spec2Isabelle
  imports
    Main
    "HOL-Library.Char_ord"
    "HOL-Library.List_Lexorder"
    "HOL-Library.Multiset"
begin

section \<open>Python values used by \<open>proj2_nps.py\<close>\<close>

text \<open>
  Strings are \<open>string\<close> (lists of bytes). The order on strings is the lexicographic
  order on bytes, which is how Python compares \<open>str\<close> values as long as the text is
  ASCII (and also on UTF-8, where byte order and code point order agree).

  Exceptions are values of \<open>error\<close>; a function that may raise returns
  \<open>error + 'a\<close>, with \<open>Inl\<close> for the exception.
\<close>

datatype error =
    AttributeError
  | KeyError
  | TypeError
  | FileNotFoundError
  | JSONDecodeError
  | ConnectionError

text \<open>
  What \<open>json.loads\<close> produces and \<open>json.dumps\<close> consumes. A Python \<open>dict\<close> keeps its
  keys in insertion order, so an object is an association list. Numbers are
  restricted to integers; no property below looks inside a number.
\<close>

datatype json =
    JNull
  | JBool bool
  | JNum int
  | JStr string
  | JArr "json list"
  | JObj "(string \<times> json) list"

text \<open>\<open>d[k] = v\<close> on a dict: replace the value in place, or append a new key.\<close>

fun setitem :: "(string \<times> 'v) list \<Rightarrow> string \<Rightarrow> 'v \<Rightarrow> (string \<times> 'v) list" where
  "setitem [] k v = [(k, v)]"
| "setitem ((k', v') # d) k v = (if k' = k then (k, v) # d else (k', v') # setitem d k v)"

text \<open>\<open>x[k]\<close> with a string key: only a dict can be indexed by a string.\<close>

fun getitem :: "json \<Rightarrow> string \<Rightarrow> error + json" where
  "getitem (JObj d) k = (case map_of d k of None \<Rightarrow> Inl KeyError | Some v \<Rightarrow> Inr v)"
| "getitem _ k = Inl TypeError"

text \<open>\<open>x.keys()\<close>: only a dict has the method.\<close>

fun keys :: "json \<Rightarrow> error + string list" where
  "keys (JObj d) = Inr (map fst d)"
| "keys _ = Inl AttributeError"

text \<open>\<open>len(x)\<close>.\<close>

fun len :: "json \<Rightarrow> error + nat" where
  "len (JStr s) = Inr (length s)"
| "len (JArr xs) = Inr (length xs)"
| "len (JObj d) = Inr (length d)"
| "len _ = Inl TypeError"

text \<open>\<open>for x in v\<close>: a list gives its elements, a dict its keys, a string its characters.\<close>

fun iter :: "json \<Rightarrow> error + json list" where
  "iter (JArr xs) = Inr xs"
| "iter (JObj d) = Inr (map (\<lambda>p. JStr (fst p)) d)"
| "iter (JStr s) = Inr (map (\<lambda>c. JStr [c]) s)"
| "iter _ = Inl TypeError"

subsection \<open>\<open>str()\<close> of an integer\<close>

definition digit_char :: "nat \<Rightarrow> char" where
  "digit_char d = char_of (48 + d)"

function str_nat :: "nat \<Rightarrow> string" where
  "str_nat n = (if n < 10 then [digit_char n] else str_nat (n div 10) @ [digit_char (n mod 10)])"
  by pat_completeness auto
termination
  by (relation "measure id") auto

declare str_nat.simps [simp del]

definition str_int :: "int \<Rightarrow> string" where
  "str_int i = (if i < 0 then CHR ''-'' # str_nat (nat (- i)) else str_nat (nat i))"

subsection \<open>String methods\<close>

text \<open>\<open>sep.join(xs)\<close>.\<close>

fun join :: "string \<Rightarrow> string list \<Rightarrow> string" where
  "join sep [] = []"
| "join sep [x] = x"
| "join sep (x # y # ys) = x @ sep @ join sep (y # ys)"

text \<open>
  \<open>s.lower()\<close> and \<open>s.strip()\<close> on ASCII text: the letters \<open>A\<close> to \<open>Z\<close> are lowered,
  and the characters Python's \<open>str.isspace\<close> accepts below 128 are stripped.
\<close>

definition lower_char :: "char \<Rightarrow> char" where
  "lower_char c =
     (if CHR ''A'' \<le> c \<and> c \<le> CHR ''Z'' then char_of (of_char c + (32::nat)) else c)"

definition lower :: "string \<Rightarrow> string" where
  "lower s = map lower_char s"

definition isspace :: "char \<Rightarrow> bool" where
  "isspace c \<longleftrightarrow>
     (let n = (of_char c :: nat) in (9 \<le> n \<and> n \<le> 13) \<or> (28 \<le> n \<and> n \<le> 32))"

definition strip :: "string \<Rightarrow> string" where
  "strip s = rev (dropWhile isspace (rev (dropWhile isspace s)))"

section \<open>The key builder\<close>

text \<open>
  \<^verbatim>\<open>
  def construct_unique_key(baseurl,params):
      param_strings = []
      connector = '&'
      for k in params.keys():
          param_strings.append(f'{k}={params[k]}')
      param_strings.sort()
      unique_key = baseurl + '?' +  connector.join(param_strings)
      return unique_key
  \<close>
  \<open>params\<close> is a dict from strings to strings or integers; the loop visits each key once,
  in insertion order, together with its value.
\<close>

datatype pval = PStr string | PInt int

fun format_pval :: "pval \<Rightarrow> string" where
  "format_pval (PStr s) = s"
| "format_pval (PInt i) = str_int i"

definition param_string :: "string \<times> pval \<Rightarrow> string" where
  "param_string p = fst p @ ''='' @ format_pval (snd p)"

fun param_loop :: "(string \<times> pval) list \<Rightarrow> string list \<Rightarrow> string list" where
  "param_loop [] param_strings = param_strings"
| "param_loop (p # params) param_strings = param_loop params (param_strings @ [param_string p])"

definition construct_unique_key :: "string \<Rightarrow> (string \<times> pval) list \<Rightarrow> string" where
  "construct_unique_key baseurl params =
     baseurl @ ''?'' @ join ''&'' (sort (param_loop params []))"

text \<open>
  The key builder as the specification words it: the pairs are put in the order of
  their key names, then written \<open>key=value\<close> and joined.
\<close>

definition spec_build_key :: "string \<Rightarrow> (string \<times> pval) list \<Rightarrow> string" where
  "spec_build_key base_url params =
     base_url @ ''?'' @ join ''&'' (map param_string (sort_key fst params))"

section \<open>Parsed HTML\<close>

text \<open>
  The tree that \<open>BeautifulSoup(text, 'html.parser')\<close> builds: a tag has a name, its
  attributes and its contents; a text node is a \<open>NavigableString\<close>. The value of a
  multi-valued attribute such as \<open>class\<close> is a list of strings, any other value a
  single string.
\<close>

datatype attr_value = Single string | Multi "string list"

datatype node =
    Tag string "(string \<times> attr_value) list" "node list"
  | NavigableString string

text \<open>All nodes below a node, in document order.\<close>

fun descendants :: "node \<Rightarrow> node list" where
  "descendants (NavigableString s) = []"
| "descendants (Tag tag_name attrs contents) = concat (map (\<lambda>c. c # descendants c) contents)"

text \<open>
  A filter value matches a single-valued attribute when it is equal to it; it matches
  a multi-valued attribute when it is one of the values or the values joined by
  spaces.
\<close>

fun attr_matches :: "attr_value \<Rightarrow> string \<Rightarrow> bool" where
  "attr_matches (Single v) want = (v = want)"
| "attr_matches (Multi vs) want = (want \<in> set vs \<or> join '' '' vs = want)"

fun tag_matches :: "string option \<Rightarrow> (string \<times> string) list \<Rightarrow> node \<Rightarrow> bool" where
  "tag_matches want_name want_attrs (NavigableString s) = False"
| "tag_matches want_name want_attrs (Tag tag_name attrs contents) =
     ((case want_name of None \<Rightarrow> True | Some n \<Rightarrow> n = tag_name) \<and>
      list_all (\<lambda>(k, want). case map_of attrs k of None \<Rightarrow> False | Some v \<Rightarrow> attr_matches v want)
        want_attrs)"

text \<open>\<open>x.find_all(name, **attrs)\<close> and \<open>x.find(name, **attrs)\<close>; the latter gives \<open>None\<close>
  when nothing matches.\<close>

definition soup_find_all :: "string option \<Rightarrow> (string \<times> string) list \<Rightarrow> node \<Rightarrow> node list" where
  "soup_find_all want_name want_attrs x = filter (tag_matches want_name want_attrs) (descendants x)"

definition soup_find :: "string option \<Rightarrow> (string \<times> string) list \<Rightarrow> node \<Rightarrow> node option" where
  "soup_find want_name want_attrs x =
     (case soup_find_all want_name want_attrs x of [] \<Rightarrow> None | t # _ \<Rightarrow> Some t)"

text \<open>\<open>x.text\<close>: all the text below the node.\<close>

fun get_text :: "node \<Rightarrow> string" where
  "get_text (NavigableString s) = s"
| "get_text (Tag tag_name attrs contents) = concat (map get_text contents)"

text \<open>\<open>x.string\<close>: the text of a node with a single line of descent to one text node.\<close>

fun tag_string :: "node \<Rightarrow> string option" where
  "tag_string (NavigableString s) = Some s"
| "tag_string (Tag tag_name attrs [c]) = tag_string c"
| "tag_string (Tag tag_name attrs contents) = None"

text \<open>\<open>x[k]\<close> on a tag reads an attribute.\<close>

fun tag_getitem :: "node \<Rightarrow> string \<Rightarrow> error + attr_value" where
  "tag_getitem (Tag tag_name attrs contents) k =
     (case map_of attrs k of None \<Rightarrow> Inl KeyError | Some v \<Rightarrow> Inr v)"
| "tag_getitem (NavigableString s) k = Inl TypeError"

text \<open>
  The result of \<open>find\<close> may be \<open>None\<close>; reading an attribute of \<open>None\<close> or calling a
  method on it raises \<open>AttributeError\<close>, indexing it raises \<open>TypeError\<close>.
\<close>

definition find_in :: "node option \<Rightarrow> string option \<Rightarrow> (string \<times> string) list \<Rightarrow> error + node option" where
  "find_in x want_name want_attrs =
     (case x of None \<Rightarrow> Inl AttributeError | Some t \<Rightarrow> Inr (soup_find want_name want_attrs t))"

definition find_all_in :: "node option \<Rightarrow> string option \<Rightarrow> (string \<times> string) list \<Rightarrow> error + node list" where
  "find_all_in x want_name want_attrs =
     (case x of None \<Rightarrow> Inl AttributeError | Some t \<Rightarrow> Inr (soup_find_all want_name want_attrs t))"

definition text_of :: "node option \<Rightarrow> error + string" where
  "text_of x = (case x of None \<Rightarrow> Inl AttributeError | Some t \<Rightarrow> Inr (get_text t))"

definition string_of :: "node option \<Rightarrow> error + string option" where
  "string_of x = (case x of None \<Rightarrow> Inl AttributeError | Some t \<Rightarrow> Inr (tag_string t))"

definition getitem_of :: "node option \<Rightarrow> string \<Rightarrow> error + attr_value" where
  "getitem_of x k = (case x of None \<Rightarrow> Inl TypeError | Some t \<Rightarrow> tag_getitem t k)"

text \<open>Sequencing: an exception in the first step ends the computation.\<close>

definition andthen :: "error + 'a \<Rightarrow> ('a \<Rightarrow> error + 'b) \<Rightarrow> error + 'b" where
  "andthen m f = (case m of Inl e \<Rightarrow> Inl e | Inr x \<Rightarrow> f x)"

section \<open>The world outside the program\<close>

text \<open>
  The libraries and the network are parameters of the program:
  \<^item> \<open>json_loads\<close> is \<open>json.loads\<close>, \<open>None\<close> when it raises; \<open>json_dumps\<close> is \<open>json.dumps\<close>;
  \<^item> \<open>requests_get n url\<close> is the body that \<open>requests.get(url)\<close> receives when \<open>n\<close>
    requests have been sent before, \<open>None\<close> when the request raises;
  \<^item> \<open>BeautifulSoup\<close> is the HTML parser;
  \<^item> \<open>py_repr\<close> is how Python prints a list or a dict;
  \<^item> \<open>CONSUMER_KEY\<close> is the API key of the \<open>secrets\<close> module.
\<close>

record env =
  json_loads :: "string \<Rightarrow> json option"
  json_dumps :: "json \<Rightarrow> string"
  requests_get :: "nat \<Rightarrow> string \<Rightarrow> string option"
  BeautifulSoup :: "string \<Rightarrow> node"
  py_repr :: "json \<Rightarrow> string"
  CONSUMER_KEY :: string

text \<open>
  The state the program acts on: the cache file (\<open>None\<close> when it does not exist), the
  number of times it has been written, the requests sent over the network, and the lines
  printed.
\<close>

record world =
  cache_file :: "string option"
  cache_writes :: nat
  requests_made :: "string list"
  stdout :: "string list"

definition print :: "string \<Rightarrow> world \<Rightarrow> world" where
  "print line w = w\<lparr>stdout := stdout w @ [line]\<rparr>"

text \<open>\<open>requests.get(url)\<close>: the request is sent, whether or not it succeeds.\<close>

definition http_get :: "env \<Rightarrow> string \<Rightarrow> world \<Rightarrow> (error + string) \<times> world" where
  "http_get L url w =
     (case requests_get L (length (requests_made w)) url of
        None \<Rightarrow> Inl ConnectionError
      | Some body \<Rightarrow> Inr body,
      w\<lparr>requests_made := requests_made w @ [url]\<rparr>)"

text \<open>\<open>response.json()\<close> decodes the body of the response.\<close>

definition response_json :: "env \<Rightarrow> string \<Rightarrow> error + json" where
  "response_json L body =
     (case json_loads L body of None \<Rightarrow> Inl JSONDecodeError | Some v \<Rightarrow> Inr v)"

text \<open>\<open>d[k] = v\<close> on a value read from the cache file.\<close>

fun json_setitem :: "json \<Rightarrow> string \<Rightarrow> json \<Rightarrow> error + json" where
  "json_setitem (JObj d) k v = Inr (JObj (setitem d k v))"
| "json_setitem _ k v = Inl TypeError"

section \<open>The response cache\<close>

definition BASE_URL :: string where
  "BASE_URL = ''https://www.nps.gov''"

definition MAP_URL :: string where
  "MAP_URL = ''http://www.mapquestapi.com/search/v2/radius''"

text \<open>
  \<^verbatim>\<open>
  def open_cache():
      try:
          cache_file = open(CACHE_FILENAME, 'r')
          cache_contents = cache_file.read()
          cache_dict = json.loads(cache_contents)
          cache_file.close()
      except:
          cache_dict = {}
      return cache_dict
  \<close>
  \<open>open_cache_try\<close> is the body of the \<open>try\<close>.
\<close>

definition open_cache_try :: "env \<Rightarrow> world \<Rightarrow> error + json" where
  "open_cache_try L w =
     (case cache_file w of
        None \<Rightarrow> Inl FileNotFoundError
      | Some cache_contents \<Rightarrow>
          (case json_loads L cache_contents of
             None \<Rightarrow> Inl JSONDecodeError
           | Some cache_dict \<Rightarrow> Inr cache_dict))"

definition open_cache :: "env \<Rightarrow> world \<Rightarrow> error + json" where
  "open_cache L w =
     (case open_cache_try L w of
        Inl e \<Rightarrow> Inr (JObj [])
      | Inr cache_dict \<Rightarrow> Inr cache_dict)"

text \<open>
  \<^verbatim>\<open>
  def save_cache(cache_dict):
      dumped_json_cache = json.dumps(cache_dict)
      fw = open(CACHE_FILENAME,"w")
      fw.write(dumped_json_cache)
      fw.close()
  \<close>
\<close>

definition save_cache :: "env \<Rightarrow> json \<Rightarrow> world \<Rightarrow> world" where
  "save_cache L cache_dict w =
     w\<lparr>cache_file := Some (json_dumps L cache_dict), cache_writes := Suc (cache_writes w)\<rparr>"

text \<open>
  \<^verbatim>\<open>
  def make_request_with_cache(url):
      CACHE_DICT = open_cache()
      if (url in CACHE_DICT.keys()):
          print("Using Cache")
          return CACHE_DICT[url]
      else:
          print("Fetching")
          response = requests.get(url)
          CACHE_DICT[url] = response.text
          save_cache(CACHE_DICT)
          return CACHE_DICT[url]
  \<close>
\<close>

definition make_request_with_cache :: "env \<Rightarrow> string \<Rightarrow> world \<Rightarrow> (error + json) \<times> world" where
  "make_request_with_cache L url w =
     (case open_cache L w of
        Inl e \<Rightarrow> (Inl e, w)
      | Inr CACHE_DICT \<Rightarrow>
          (case keys CACHE_DICT of
             Inl e \<Rightarrow> (Inl e, w)
           | Inr ks \<Rightarrow>
               if url \<in> set ks then (getitem CACHE_DICT url, print ''Using Cache'' w)
               else
                 (case http_get L url (print ''Fetching'' w) of
                    (Inl e, w') \<Rightarrow> (Inl e, w')
                  | (Inr response_text, w') \<Rightarrow>
                      (case json_setitem CACHE_DICT url (JStr response_text) of
                         Inl e \<Rightarrow> (Inl e, w')
                       | Inr CACHE_DICT' \<Rightarrow>
                           (getitem CACHE_DICT' url, save_cache L CACHE_DICT' w')))))"

text \<open>
  \<open>map_make_request_with_cache\<close> is the same function with
  \<open>CACHE_DICT[url] = response.json()\<close> in place of \<open>response.text\<close>.
\<close>

definition map_make_request_with_cache :: "env \<Rightarrow> string \<Rightarrow> world \<Rightarrow> (error + json) \<times> world" where
  "map_make_request_with_cache L url w =
     (case open_cache L w of
        Inl e \<Rightarrow> (Inl e, w)
      | Inr CACHE_DICT \<Rightarrow>
          (case keys CACHE_DICT of
             Inl e \<Rightarrow> (Inl e, w)
           | Inr ks \<Rightarrow>
               if url \<in> set ks then (getitem CACHE_DICT url, print ''Using Cache'' w)
               else
                 (case http_get L url (print ''Fetching'' w) of
                    (Inl e, w') \<Rightarrow> (Inl e, w')
                  | (Inr response_text, w') \<Rightarrow>
                      (case response_json L response_text of
                         Inl e \<Rightarrow> (Inl e, w')
                       | Inr response_value \<Rightarrow>
                           (case json_setitem CACHE_DICT url response_value of
                              Inl e \<Rightarrow> (Inl e, w')
                            | Inr CACHE_DICT' \<Rightarrow>
                                (getitem CACHE_DICT' url, save_cache L CACHE_DICT' w'))))))"

section \<open>The state index\<close>

text \<open>
  \<open>BeautifulSoup(url_text, 'html.parser')\<close> parses a string; the constructor raises on
  any other value (the model says \<open>TypeError\<close> for every such value).
\<close>

fun make_soup :: "env \<Rightarrow> json \<Rightarrow> error + node" where
  "make_soup L (JStr url_text) = Inr (BeautifulSoup L url_text)"
| "make_soup L _ = Inl TypeError"

text \<open>\<open>BASE_URL + x\<close>: only a string can be appended to a string.\<close>

fun str_concat :: "string \<Rightarrow> attr_value \<Rightarrow> error + string" where
  "str_concat s (Single t) = Inr (s @ t)"
| "str_concat s (Multi ts) = Inl TypeError"

text \<open>\<open>x.lower()\<close> where \<open>x\<close> may be \<open>None\<close>.\<close>

fun lower_of :: "string option \<Rightarrow> error + string" where
  "lower_of None = Inl AttributeError"
| "lower_of (Some s) = Inr (lower s)"

text \<open>
  \<^verbatim>\<open>
  def build_state_url_dict():
      main_url = "https://www.nps.gov/index.htm"
      url_text = make_request_with_cache(main_url)
      soup = BeautifulSoup(url_text, 'html.parser')
      state_list_parent = soup.find('div',class_ = 'SearchBar-keywordSearch input-group input-group-lg')
      state_list = state_list_parent.find_all('li')
      state_url_dict = {}
      for state_info in state_list:
          state_tag = state_info.find('a')
          state_detail_path = state_tag['href']
          state_detail_url = BASE_URL+state_detail_path
          state_url_dict[state_tag.string.lower()] = state_detail_url
      return state_url_dict
  \<close>
  \<open>state_entry\<close> is the body of the loop up to the assignment: the key and the value it
  stores.
\<close>

definition state_entry :: "node \<Rightarrow> error + string \<times> string" where
  "state_entry state_info =
     (let state_tag = soup_find (Some ''a'') [] state_info in
      andthen (getitem_of state_tag ''href'') (\<lambda>state_detail_path.
      andthen (str_concat BASE_URL state_detail_path) (\<lambda>state_detail_url.
      andthen (string_of state_tag) (\<lambda>state_name.
      andthen (lower_of state_name) (\<lambda>k.
      Inr (k, state_detail_url))))))"

fun state_loop :: "node list \<Rightarrow> (string \<times> string) list \<Rightarrow> error + (string \<times> string) list" where
  "state_loop [] state_url_dict = Inr state_url_dict"
| "state_loop (state_info # state_list) state_url_dict =
     (case state_entry state_info of
        Inl e \<Rightarrow> Inl e
      | Inr (k, state_detail_url) \<Rightarrow>
          state_loop state_list (setitem state_url_dict k state_detail_url))"

definition main_url :: string where
  "main_url = ''https://www.nps.gov/index.htm''"

definition state_list_class :: string where
  "state_list_class = ''SearchBar-keywordSearch input-group input-group-lg''"

definition build_state_url_dict :: "env \<Rightarrow> world \<Rightarrow> (error + (string \<times> string) list) \<times> world" where
  "build_state_url_dict L w =
     (case make_request_with_cache L main_url w of
        (Inl e, w') \<Rightarrow> (Inl e, w')
      | (Inr url_text, w') \<Rightarrow>
          (andthen (make_soup L url_text) (\<lambda>soup.
           let state_list_parent = soup_find (Some ''div'') [(''class'', state_list_class)] soup in
           andthen (find_all_in state_list_parent (Some ''li'') []) (\<lambda>state_list.
           state_loop state_list [])),
           w'))"

text \<open>
  The resolution of a link as the specification words it: the base origin is put in
  front of a relative path, and an absolute URL stays as it is.
\<close>

definition is_relative_path :: "string \<Rightarrow> bool" where
  "is_relative_path href \<longleftrightarrow> take 7 href \<noteq> ''http://'' \<and> take 8 href \<noteq> ''https://''"

definition spec_resolve :: "string \<Rightarrow> string" where
  "spec_resolve href = (if is_relative_path href then BASE_URL @ href else href)"

section \<open>The site fetcher\<close>

record NationalSite =
  category :: string
  name :: string
  address :: string
  zipcode :: string
  phone :: string

text \<open>
  \<^verbatim>\<open>
      site_head_parent = soup.find('div',class_ = "Hero-titleContainer clearfix")
      site_name = site_head_parent.find('a').text
      site_category = site_head_parent.find('div',class_="Hero-designationContainer").find('span',class_="Hero-designation").text
  \<close>
\<close>

definition site_head :: "node \<Rightarrow> error + string \<times> string" where
  "site_head soup =
     (let site_head_parent = soup_find (Some ''div'') [(''class'', ''Hero-titleContainer clearfix'')] soup in
      andthen (find_in site_head_parent (Some ''a'') []) (\<lambda>a.
      andthen (text_of a) (\<lambda>site_name.
      andthen (find_in site_head_parent (Some ''div'') [(''class'', ''Hero-designationContainer'')]) (\<lambda>c.
      andthen (find_in c (Some ''span'') [(''class'', ''Hero-designation'')]) (\<lambda>d.
      andthen (text_of d) (\<lambda>site_category.
      Inr (site_name, site_category)))))))"

text \<open>
  \<^verbatim>\<open>
      site_address_parent = soup.find('p',class_='adr')
      ...
      if site_address_parent is not None:
          site_locality = soup.find("span",itemprop = "addressLocality").text
          site_region = soup.find("span",itemprop = "addressRegion").text
          site_zipcode = soup.find("span",itemprop = "postalCode").text.strip()
          site_address = site_locality + ", " + site_region
      else:
          site_zipcode = 'No zipcode'
          site_address = 'No address'
  \<close>
  The result is the pair of \<open>site_zipcode\<close> and \<open>site_address\<close>.
\<close>

definition site_address_parent :: "node \<Rightarrow> node option" where
  "site_address_parent soup = soup_find (Some ''p'') [(''class'', ''adr'')] soup"

definition site_zip_address :: "node \<Rightarrow> error + string \<times> string" where
  "site_zip_address soup =
     (if site_address_parent soup \<noteq> None then
        andthen (text_of (soup_find (Some ''span'') [(''itemprop'', ''addressLocality'')] soup)) (\<lambda>site_locality.
        andthen (text_of (soup_find (Some ''span'') [(''itemprop'', ''addressRegion'')] soup)) (\<lambda>site_region.
        andthen (text_of (soup_find (Some ''span'') [(''itemprop'', ''postalCode'')] soup)) (\<lambda>postal.
        Inr (strip postal, site_locality @ '', '' @ site_region))))
      else Inr (''No zipcode'', ''No address''))"

text \<open>
  \<^verbatim>\<open>
      site_phone = soup.find("span",itemprop ="telephone").text.strip()
  \<close>
\<close>

definition site_phone :: "node \<Rightarrow> error + string" where
  "site_phone soup =
     andthen (text_of (soup_find (Some ''span'') [(''itemprop'', ''telephone'')] soup)) (\<lambda>t.
     Inr (strip t))"

text \<open>The rest of \<open>get_site_instance\<close>: the page is fetched and parsed, the three groups of
  fields are read in the order of the source, and the record is built.\<close>

definition site_of_soup :: "node \<Rightarrow> error + NationalSite" where
  "site_of_soup soup =
     andthen (site_head soup) (\<lambda>(site_name, site_category).
     andthen (site_zip_address soup) (\<lambda>(site_zipcode, site_address).
     andthen (site_phone soup) (\<lambda>site_phone.
     Inr \<lparr>category = site_category, name = site_name, address = site_address,
          zipcode = site_zipcode, phone = site_phone\<rparr>)))"

definition get_site_instance :: "env \<Rightarrow> string \<Rightarrow> world \<Rightarrow> (error + NationalSite) \<times> world" where
  "get_site_instance L site_url w =
     (case make_request_with_cache L site_url w of
        (Inl e, w') \<Rightarrow> (Inl e, w')
      | (Inr url_text, w') \<Rightarrow> (andthen (make_soup L url_text) site_of_soup, w'))"

section \<open>Places lookup\<close>

text \<open>
  \<^verbatim>\<open>
  def get_nearby_places(site_object):
      origin = site_object.zipcode
      params = {'origin':origin,'radius':10,'maxMatches':10,'ambiguities':'ignore','outFormat':'json','key':consumer_key}
      map_api_key = construct_unique_key(MAP_URL,params)
      response_dict = map_make_request_with_cache(map_api_key)
      return response_dict
  \<close>
\<close>

definition get_nearby_places :: "env \<Rightarrow> NationalSite \<Rightarrow> world \<Rightarrow> (error + json) \<times> world" where
  "get_nearby_places L site_object w =
     (let origin = zipcode site_object;
          params = [(''origin'', PStr origin), (''radius'', PInt 10), (''maxMatches'', PInt 10),
                    (''ambiguities'', PStr ''ignore''), (''outFormat'', PStr ''json''),
                    (''key'', PStr (CONSUMER_KEY L))];
          map_api_key = construct_unique_key MAP_URL params
      in map_make_request_with_cache L map_api_key w)"

text \<open>What an f-string puts in place of \<open>{x}\<close>: \<open>str(x)\<close>.\<close>

fun format_value :: "env \<Rightarrow> json \<Rightarrow> string" where
  "format_value L (JStr s) = s"
| "format_value L (JNum i) = str_int i"
| "format_value L JNull = ''None''"
| "format_value L (JBool b) = (if b then ''True'' else ''False'')"
| "format_value L v = py_repr L v"

text \<open>\<open>result['fields'][k]\<close>.\<close>

definition field_of :: "json \<Rightarrow> string \<Rightarrow> error + json" where
  "field_of result k = andthen (getitem result ''fields'') (\<lambda>fields. getitem fields k)"

text \<open>\<open>if len(x) == 0: x = placeholder\<close>.\<close>

definition or_placeholder :: "json \<Rightarrow> string \<Rightarrow> error + json" where
  "or_placeholder x placeholder =
     andthen (len x) (\<lambda>n. Inr (if n = 0 then JStr placeholder else x))"

text \<open>
  \<^verbatim>\<open>
  def print_nearby_places(map_api_dict):
      results_list = map_api_dict['searchResults']
      for result in results_list:
          place_name = result['name']
          place_category = result['fields']['group_sic_code_name']
          place_address = result['fields']['address']
          place_city = result['fields']['city']
          if len(place_category) == 0:
              place_category = 'no category'
          if len(place_address) == 0:
              place_address = 'no address'
          if len(place_city) == 0:
              place_city = 'no city'
          print(f"- {place_name} ({place_category}): {place_address}, {place_city}")
  \<close>
  \<open>place_line\<close> is the line one round of the loop prints.
\<close>

definition place_line :: "env \<Rightarrow> json \<Rightarrow> error + string" where
  "place_line L result =
     andthen (getitem result ''name'') (\<lambda>place_name.
     andthen (field_of result ''group_sic_code_name'') (\<lambda>place_category.
     andthen (field_of result ''address'') (\<lambda>place_address.
     andthen (field_of result ''city'') (\<lambda>place_city.
     andthen (or_placeholder place_category ''no category'') (\<lambda>place_category.
     andthen (or_placeholder place_address ''no address'') (\<lambda>place_address.
     andthen (or_placeholder place_city ''no city'') (\<lambda>place_city.
     Inr (''- '' @ format_value L place_name @ '' ('' @ format_value L place_category @ ''): ''
          @ format_value L place_address @ '', '' @ format_value L place_city))))))))"

fun places_loop :: "env \<Rightarrow> json list \<Rightarrow> world \<Rightarrow> (error + unit) \<times> world" where
  "places_loop L [] w = (Inr (), w)"
| "places_loop L (result # results_list) w =
     (case place_line L result of
        Inl e \<Rightarrow> (Inl e, w)
      | Inr line \<Rightarrow> places_loop L results_list (print line w))"

definition print_nearby_places :: "env \<Rightarrow> json \<Rightarrow> world \<Rightarrow> (error + unit) \<times> world" where
  "print_nearby_places L map_api_dict w =
     (case andthen (getitem map_api_dict ''searchResults'') iter of
        Inl e \<Rightarrow> (Inl e, w)
      | Inr results_list \<Rightarrow> places_loop L results_list w)"

text \<open>
  The line of one place as the specification words it, from the four strings of the
  entry: an empty category, address or city is replaced by its placeholder.
\<close>

definition spec_place_line :: "string \<times> string \<times> string \<times> string \<Rightarrow> string" where
  "spec_place_line p =
     (case p of (place_name, place_category, place_address, place_city) \<Rightarrow>
        ''- '' @ place_name
        @ '' ('' @ (if place_category = [] then ''no category'' else place_category)
        @ ''): '' @ (if place_address = [] then ''no address'' else place_address)
        @ '', '' @ (if place_city = [] then ''no city'' else place_city))"

text \<open>A place entry with the four strings \<open>p\<close>: what the lookups of the loop find in it.\<close>

definition place_entry :: "json \<Rightarrow> string \<times> string \<times> string \<times> string \<Rightarrow> bool" where
  "place_entry result p \<longleftrightarrow>
     (case p of (place_name, place_category, place_address, place_city) \<Rightarrow>
        getitem result ''name'' = Inr (JStr place_name) \<and>
        field_of result ''group_sic_code_name'' = Inr (JStr place_category) \<and>
        field_of result ''address'' = Inr (JStr place_address) \<and>
        field_of result ''city'' = Inr (JStr place_city))"

section \<open>A small world to run the program in\<close>

text \<open>
  Pages of the parks site as the parser delivers them, a network that serves them,
  and a JSON codec that knows the three cache documents the runs below read and write.
\<close>

definition ex_homepage :: node where
  "ex_homepage = Tag ''[document]'' []
     [Tag ''div'' [(''class'', Multi [''SearchBar-keywordSearch'', ''input-group'', ''input-group-lg''])]
        [Tag ''ul'' []
           [Tag ''li'' []
              [Tag ''a'' [(''href'', Single ''/state/mi/index.htm'')] [NavigableString ''Michigan'']]]]]"

definition ex_homepage_absolute :: node where
  "ex_homepage_absolute = Tag ''[document]'' []
     [Tag ''div'' [(''class'', Multi [''SearchBar-keywordSearch'', ''input-group'', ''input-group-lg''])]
        [Tag ''ul'' []
           [Tag ''li'' []
              [Tag ''a'' [(''href'', Single ''https://www.nps.gov/state/mi/index.htm'')]
                 [NavigableString ''Michigan'']]]]]"

definition ex_site_page :: node where
  "ex_site_page = Tag ''[document]'' []
     [Tag ''div'' [(''class'', Multi [''Hero-titleContainer'', ''clearfix''])]
        [Tag ''a'' [(''href'', Single ''/isro/'')] [NavigableString ''Isle Royale''],
         Tag ''div'' [(''class'', Multi [''Hero-designationContainer''])]
           [Tag ''span'' [(''class'', Multi [''Hero-designation''])] [NavigableString ''National Park'']]],
      Tag ''p'' [(''class'', Multi [''adr''])]
        [Tag ''span'' [(''itemprop'', Single ''addressLocality'')] [NavigableString '' Houghton ''],
         Tag ''span'' [(''itemprop'', Single ''addressRegion'')] [NavigableString ''MI''],
         Tag ''span'' [(''itemprop'', Single ''postalCode'')] [NavigableString ''49931  '']],
      Tag ''span'' [(''itemprop'', Single ''telephone'')] [NavigableString '' (906) 482-0984 '']]"

definition ex_park_page :: node where
  "ex_park_page = Tag ''[document]'' []
     [Tag ''div'' [(''class'', Multi [''Hero-titleContainer'', ''clearfix''])]
        [Tag ''a'' [(''href'', Single ''/yose/'')] [NavigableString ''Yosemite''],
         Tag ''div'' [(''class'', Multi [''Hero-designationContainer''])]
           [Tag ''span'' [(''class'', Multi [''Hero-designation''])] [NavigableString ''National Park'']]],
      Tag ''span'' [(''itemprop'', Single ''telephone'')] [NavigableString ''209/372-0200 '']]"

definition ex_site_url :: string where
  "ex_site_url = ''https://www.nps.gov/isro/index.htm''"

definition ex_park_url :: string where
  "ex_park_url = ''https://www.nps.gov/yose/index.htm''"

definition ex_store1 :: json where
  "ex_store1 = JObj [(ex_site_url, JStr ''site page'')]"

definition ex_store2 :: json where
  "ex_store2 = JObj [(ex_site_url, JStr ''site page''), (main_url, JStr ''home page'')]"

definition ex_env :: env where
  "ex_env =
     \<lparr>json_loads = (\<lambda>s. if s = ''{}'' then Some (JObj [])
                        else if s = ''{site}'' then Some ex_store1
                        else if s = ''{site, home}'' then Some ex_store2
                        else None),
      json_dumps = (\<lambda>c. if c = ex_store1 then ''{site}''
                        else if c = ex_store2 then ''{site, home}''
                        else ''{}''),
      requests_get = (\<lambda>n url. if url = main_url then Some ''home page''
                        else if url = ex_site_url then Some ''site page''
                        else if url = ex_park_url then Some ''park page''
                        else None),
      BeautifulSoup = (\<lambda>s. if s = ''home page'' then ex_homepage
                        else if s = ''site page'' then ex_site_page
                        else if s = ''park page'' then ex_park_page
                        else Tag ''[document]'' [] [NavigableString s]),
      py_repr = (\<lambda>v. ''[...]''),
      CONSUMER_KEY = ''key''\<rparr>"

definition ex_env_absolute :: env where
  "ex_env_absolute = ex_env\<lparr>BeautifulSoup := (\<lambda>s. ex_homepage_absolute)\<rparr>"

definition ex_world :: world where
  "ex_world = \<lparr>cache_file = None, cache_writes = 0, requests_made = [], stdout = []\<rparr>"

definition ex_world_cached :: world where
  "ex_world_cached = \<lparr>cache_file = Some ''{site}'', cache_writes = 1,
     requests_made = [ex_site_url], stdout = [''Fetching'']\<rparr>"

definition ex_places :: json where
  "ex_places = JObj [(''searchResults'', JArr
     [JObj [(''name'', JStr ''Suomi Cafe''),
            (''fields'', JObj [(''group_sic_code_name'', JStr ''''),
                               (''address'', JStr ''54 Huron St''),
                               (''city'', JStr '''')])]])]"

text \<open>A cache file that holds a JSON document other than an object: the list \<open>[]\<close>.\<close>

definition ex_env_list :: env where
  "ex_env_list =
     ex_env\<lparr>json_loads := (\<lambda>s. if s = ''[]'' then Some (JArr []) else json_loads ex_env s)\<rparr>"

definition ex_world_list :: world where
  "ex_world_list = ex_world\<lparr>cache_file := Some ''[]''\<rparr>"

section \<open>Dictionaries\<close>

lemma map_of_setitem: "map_of (setitem d k v) = (map_of d)(k \<mapsto> v)"
  by (induction d) (auto simp: fun_eq_iff)

lemma keys_setitem: "fst ` set (setitem d k v) = insert k (fst ` set d)"
  by (simp add: map_of_setitem flip: dom_map_of_conv_image_fst)

lemma getitem_present:
  "k \<in> set (map fst d) \<Longrightarrow> \<exists>v. map_of d k = Some v \<and> getitem (JObj d) k = Inr v"
  by (cases "map_of d k") (auto simp: map_of_eq_None_iff)

section \<open>Properties of the response cache\<close>

lemma open_cache_cong: "cache_file w' = cache_file w \<Longrightarrow> open_cache L w' = open_cache L w"
  by (simp add: open_cache_def open_cache_try_def)

lemma open_cache_saved:
  "json_loads L (json_dumps L c) = Some c \<Longrightarrow> open_cache L (save_cache L c w) = Inr c"
  by (simp add: open_cache_def open_cache_try_def save_cache_def)

text \<open>A hit: both functions return the stored value and only print a line.\<close>

lemma fetch_hit:
  assumes "fetch = make_request_with_cache \<or> fetch = map_make_request_with_cache"
    and "open_cache L w = Inr (JObj d)" and "url \<in> set (map fst d)"
  shows "fetch L url w = (getitem (JObj d) url, print ''Using Cache'' w)"
proof -
  from assms(3) have "url \<in> fst ` set d" by simp
  then have "make_request_with_cache L url w = (getitem (JObj d) url, print ''Using Cache'' w)"
    and "map_make_request_with_cache L url w = (getitem (JObj d) url, print ''Using Cache'' w)"
    by (simp_all add: make_request_with_cache_def map_make_request_with_cache_def assms(2))
  with assms(1) show ?thesis by blast
qed

text \<open>A miss: one request is sent; the cache file is written when the request (and,
  for the places API, the decoding of its body) succeeds, and not otherwise.\<close>

lemma text_miss:
  assumes "open_cache L w = Inr (JObj d)" and "url \<notin> set (map fst d)"
  shows "make_request_with_cache L url w =
     (case requests_get L (length (requests_made w)) url of
        None \<Rightarrow> (Inl ConnectionError, (print ''Fetching'' w)\<lparr>requests_made := requests_made w @ [url]\<rparr>)
      | Some body \<Rightarrow> (Inr (JStr body), save_cache L (JObj (setitem d url (JStr body)))
            ((print ''Fetching'' w)\<lparr>requests_made := requests_made w @ [url]\<rparr>)))"
  using assms
  by (simp add: make_request_with_cache_def http_get_def print_def map_of_setitem
      split: option.splits)

lemma json_miss:
  assumes "open_cache L w = Inr (JObj d)" and "url \<notin> set (map fst d)"
  shows "map_make_request_with_cache L url w =
     (case requests_get L (length (requests_made w)) url of
        None \<Rightarrow> (Inl ConnectionError, (print ''Fetching'' w)\<lparr>requests_made := requests_made w @ [url]\<rparr>)
      | Some body \<Rightarrow>
         (case json_loads L body of
            None \<Rightarrow> (Inl JSONDecodeError, (print ''Fetching'' w)\<lparr>requests_made := requests_made w @ [url]\<rparr>)
          | Some x \<Rightarrow> (Inr x, save_cache L (JObj (setitem d url x))
            ((print ''Fetching'' w)\<lparr>requests_made := requests_made w @ [url]\<rparr>))))"
  using assms
  by (simp add: map_make_request_with_cache_def http_get_def print_def map_of_setitem
      response_json_def split: option.splits)

lemma fetch_miss:
  assumes "fetch = make_request_with_cache \<or> fetch = map_make_request_with_cache"
    and "open_cache L w = Inr (JObj d)" and "url \<notin> set (map fst d)"
  shows "(\<exists>e w'. fetch L url w = (Inl e, w') \<and> cache_file w' = cache_file w \<and>
               cache_writes w' = cache_writes w \<and> requests_made w' = requests_made w @ [url]) \<or>
         (\<exists>x. fetch L url w =
               (Inr x, save_cache L (JObj (setitem d url x))
                  ((print ''Fetching'' w)\<lparr>requests_made := requests_made w @ [url]\<rparr>)))"
  using assms(1)
proof
  assume "fetch = make_request_with_cache"
  then show ?thesis
    using text_miss [OF assms(2,3)] by (auto simp: print_def split: option.splits)
next
  assume "fetch = map_make_request_with_cache"
  then show ?thesis
    using json_miss [OF assms(2,3)] by (auto simp: print_def split: option.splits)
qed

text \<open>A cache that is not a dict: \<open>.keys()\<close> raises before anything else happens.\<close>

lemma fetch_not_dict:
  assumes "fetch = make_request_with_cache \<or> fetch = map_make_request_with_cache"
    and "\<forall>d. open_cache L w \<noteq> Inr (JObj d)"
  shows "fetch L url w = (Inl AttributeError, w)"
proof -
  obtain c where c: "open_cache L w = Inr c"
    by (cases "open_cache_try L w") (simp_all add: open_cache_def)
  with assms(2) have "keys c = Inl AttributeError"
    by (cases c) simp_all
  with c have "make_request_with_cache L url w = (Inl AttributeError, w)"
    and "map_make_request_with_cache L url w = (Inl AttributeError, w)"
    by (simp_all add: make_request_with_cache_def map_make_request_with_cache_def)
  with assms(1) show ?thesis by blast
qed

text \<open>
  Claim C1 (cache idempotence). Take either cached request function and any URL. When a
  first call returns a value \<open>v\<close> and the document it may have written decodes to the
  dict that was saved, a second call with the same URL returns the same \<open>v\<close> and does
  nothing but print \<open>Using Cache\<close>: it sends no request and writes no file. The two calls
  together send at most one request.
\<close>

theorem cache_idempotence:
  assumes mode: "fetch = make_request_with_cache \<or> fetch = map_make_request_with_cache"
    and first: "fetch L url w = (Inr v, w1)"
    and store: "open_cache L w = Inr (JObj d)"
    and codec: "json_loads L (json_dumps L (JObj (setitem d url v))) = Some (JObj (setitem d url v))"
  shows "fetch L url w1 = (Inr v, print ''Using Cache'' w1) \<and>
         length (requests_made w1) \<le> Suc (length (requests_made w))"
proof (cases "url \<in> set (map fst d)")
  case True
  from fetch_hit [OF mode store True] first
  have v: "getitem (JObj d) url = Inr v" and w1: "w1 = print ''Using Cache'' w"
    by simp_all
  from w1 have "cache_file w1 = cache_file w"
    by (simp add: print_def)
  then have "open_cache L w1 = Inr (JObj d)"
    using store by (simp only: open_cache_cong [of w1 w])
  from fetch_hit [OF mode this True] v w1 show ?thesis
    by (simp add: print_def)
next
  case False
  from fetch_miss [OF mode store False] first
  have w1: "w1 = save_cache L (JObj (setitem d url v))
      ((print ''Fetching'' w)\<lparr>requests_made := requests_made w @ [url]\<rparr>)"
    by auto
  then have "open_cache L w1 = Inr (JObj (setitem d url v))"
    using codec by (simp add: open_cache_saved)
  moreover have "url \<in> set (map fst (setitem d url v))"
    by (simp add: keys_setitem)
  ultimately have "fetch L url w1 = (getitem (JObj (setitem d url v)) url, print ''Using Cache'' w1)"
    using mode by (rule fetch_hit [rotated])
  then show ?thesis
    using w1 by (simp add: map_of_setitem save_cache_def print_def)
qed

text \<open>
  The first call starts without a cache file, fetches the page and writes the cache;
  the second call finds it there.
\<close>

theorem cache_idempotence_witness:
  "make_request_with_cache ex_env ex_site_url ex_world_cached =
     (Inr (JStr ''site page''), print ''Using Cache'' ex_world_cached) \<and>
   length (requests_made ex_world_cached) \<le> Suc (length (requests_made ex_world))"
proof -
  have 1: "make_request_with_cache ex_env ex_site_url ex_world =
      (Inr (JStr ''site page''), ex_world_cached)"
    by code_simp
  have 2: "open_cache ex_env ex_world = Inr (JObj [])"
    by code_simp
  have 3: "json_loads ex_env (json_dumps ex_env (JObj (setitem [] ex_site_url (JStr ''site page''))))
      = Some (JObj (setitem [] ex_site_url (JStr ''site page'')))"
    by code_simp
  show ?thesis
    using cache_idempotence [of make_request_with_cache, OF _ 1 2 3] by simp
qed

text \<open>
  What \<open>open_cache\<close> does for every state of the disk: it does not raise; it returns
  the empty dict when the cache file is missing and when its contents cannot be decoded,
  and the decoded document, whatever JSON value it is, otherwise.
\<close>

lemma open_cache_returns:
  "(\<exists>doc. open_cache L w = Inr doc) \<and>
   (cache_file w = None \<longrightarrow> open_cache L w = Inr (JObj [])) \<and>
   (\<forall>contents. cache_file w = Some contents \<and> json_loads L contents = None \<longrightarrow>
      open_cache L w = Inr (JObj [])) \<and>
   (\<forall>contents doc. cache_file w = Some contents \<and> json_loads L contents = Some doc \<longrightarrow>
      open_cache L w = Inr doc)"
  by (auto simp: open_cache_def open_cache_try_def split: option.splits)

text \<open>
  Claim C4 (cache resilience), at a cache file that holds the JSON list \<open>[]\<close>: the file
  decodes, so nothing is caught, and \<open>open_cache\<close> returns the list. That is not a
  store: it is not the dict the docstring of \<open>open_cache\<close> promises, and both request
  functions raise \<open>AttributeError\<close> on its \<open>.keys()\<close> before they read or fetch
  anything.
\<close>

theorem open_cache_not_a_dict:
  "open_cache ex_env_list ex_world_list = Inr (JArr []) \<and>
   make_request_with_cache ex_env_list ex_site_url ex_world_list =
     (Inl AttributeError, ex_world_list) \<and>
   map_make_request_with_cache ex_env_list ex_site_url ex_world_list =
     (Inl AttributeError, ex_world_list)"
  by code_simp

text \<open>
  Claim C5 (one value per key). Take either cached request function and a cache in which
  the key \<open>k\<close> holds the value \<open>v\<close>. After a call with any URL, whether it hits, fetches or
  raises, the cache read back from the disk is a dict in which \<open>k\<close> still holds \<open>v\<close>,
  provided the document the call may have written decodes to the dict that was saved.
\<close>

theorem cache_keys_stable:
  assumes mode: "fetch = make_request_with_cache \<or> fetch = map_make_request_with_cache"
    and store: "open_cache L w = Inr (JObj d)"
    and present: "map_of d k = Some v"
    and call: "fetch L url w = (r, w')"
    and codec: "case r of Inl e \<Rightarrow> True
                | Inr x \<Rightarrow> json_loads L (json_dumps L (JObj (setitem d url x)))
                           = Some (JObj (setitem d url x))"
  shows "\<exists>d'. open_cache L w' = Inr (JObj d') \<and> map_of d' k = Some v"
proof (cases "url \<in> set (map fst d)")
  case True
  from fetch_hit [OF mode store True] call have "w' = print ''Using Cache'' w"
    by simp
  then have "cache_file w' = cache_file w"
    by (simp add: print_def)
  then have "open_cache L w' = Inr (JObj d)"
    using store by (simp only: open_cache_cong [of w' w])
  with present show ?thesis by blast
next
  case False
  from present have "k \<in> set (map fst d)"
    using map_of_eq_None_iff [of d k] by simp
  with False have ne: "k \<noteq> url" by blast
  from fetch_miss [OF mode store False]
  show ?thesis
  proof (elim disjE exE conjE)
    fix e w''
    assume "fetch L url w = (Inl e, w'')" and "cache_file w'' = cache_file w"
    with call have "cache_file w' = cache_file w" by simp
    then have "open_cache L w' = Inr (JObj d)"
      using store by (simp only: open_cache_cong [of w' w])
    with present show ?thesis by blast
  next
    fix x
    assume "fetch L url w = (Inr x, save_cache L (JObj (setitem d url x))
        ((print ''Fetching'' w)\<lparr>requests_made := requests_made w @ [url]\<rparr>))"
    with call have r: "r = Inr x"
      and w': "w' = save_cache L (JObj (setitem d url x))
        ((print ''Fetching'' w)\<lparr>requests_made := requests_made w @ [url]\<rparr>)"
      by simp_all
    from codec r have "json_loads L (json_dumps L (JObj (setitem d url x)))
        = Some (JObj (setitem d url x))"
      by simp
    with w' have "open_cache L w' = Inr (JObj (setitem d url x))"
      by (simp add: open_cache_saved)
    moreover from present ne have "map_of (setitem d url x) k = Some v"
      by (simp add: map_of_setitem)
    ultimately show ?thesis by blast
  qed
qed

text \<open>The site page is in the cache; fetching the homepage adds a key and keeps it.\<close>

theorem cache_keys_stable_witness:
  "\<exists>d'. open_cache ex_env
          \<lparr>cache_file = Some ''{site, home}'', cache_writes = 2,
           requests_made = [ex_site_url, main_url],
           stdout = [''Fetching'', ''Fetching'']\<rparr> = Inr (JObj d') \<and>
        map_of d' ex_site_url = Some (JStr ''site page'')"
proof -
  have 1: "open_cache ex_env ex_world_cached = Inr (JObj [(ex_site_url, JStr ''site page'')])"
    by code_simp
  have 2: "map_of [(ex_site_url, JStr ''site page'')] ex_site_url = Some (JStr ''site page'')"
    by simp
  have 3: "make_request_with_cache ex_env main_url ex_world_cached =
      (Inr (JStr ''home page''),
       \<lparr>cache_file = Some ''{site, home}'', cache_writes = 2,
        requests_made = [ex_site_url, main_url], stdout = [''Fetching'', ''Fetching'']\<rparr>)"
    by code_simp
  have 4: "case (Inr (JStr ''home page'') :: error + json) of Inl e \<Rightarrow> True
      | Inr x \<Rightarrow> json_loads ex_env (json_dumps ex_env
            (JObj (setitem [(ex_site_url, JStr ''site page'')] main_url x)))
          = Some (JObj (setitem [(ex_site_url, JStr ''site page'')] main_url x))"
    by code_simp
  show ?thesis
    using cache_keys_stable [of make_request_with_cache, OF _ 1 2 3 4] by simp
qed

text \<open>
  Claim C10 (a hit writes nothing). Take either cached request function and a call with
  any URL. When the URL is a key of the cache read from the disk, the call returns the
  stored value and leaves the contents of the cache file, the number of writes and the
  requests sent as they were. When the call changes the file or the number of writes,
  it has written the file once, and the cache read from the disk was a dict without
  the URL among its keys.
\<close>

theorem cache_hit_no_write:
  assumes mode: "fetch = make_request_with_cache \<or> fetch = map_make_request_with_cache"
    and call: "fetch L url w = (r, w')"
  shows "(\<forall>d. open_cache L w = Inr (JObj d) \<and> url \<in> set (map fst d) \<longrightarrow>
            r = getitem (JObj d) url \<and> \<not> isl r \<and> cache_file w' = cache_file w \<and>
            cache_writes w' = cache_writes w \<and> requests_made w' = requests_made w) \<and>
         (cache_writes w' \<noteq> cache_writes w \<or> cache_file w' \<noteq> cache_file w \<longrightarrow>
            (\<exists>d. open_cache L w = Inr (JObj d) \<and> url \<notin> set (map fst d)) \<and>
            cache_writes w' = Suc (cache_writes w))"
proof (cases "\<exists>d. open_cache L w = Inr (JObj d)")
  case False
  then have "fetch L url w = (Inl AttributeError, w)"
    using fetch_not_dict [OF mode] by simp
  with call False show ?thesis by simp
next
  case True
  then obtain d where store: "open_cache L w = Inr (JObj d)" ..
  show ?thesis
  proof (cases "url \<in> set (map fst d)")
    case True
    from fetch_hit [OF mode store True] call
    have "r = getitem (JObj d) url" and "w' = print ''Using Cache'' w"
      by simp_all
    moreover from True obtain v where "getitem (JObj d) url = Inr v"
      using getitem_present by blast
    ultimately show ?thesis
      using True store by (simp add: print_def)
  next
    case False
    from fetch_miss [OF mode store False] call show ?thesis
      using False store by (auto simp: save_cache_def print_def)
  qed
qed

text \<open>The places lookup function, called with a URL that is in the cache.\<close>

theorem cache_hit_no_write_witness:
  "map_make_request_with_cache ex_env ex_site_url ex_world_cached =
     (Inr (JStr ''site page''), print ''Using Cache'' ex_world_cached) \<and>
   cache_file (print ''Using Cache'' ex_world_cached) = cache_file ex_world_cached \<and>
   cache_writes (print ''Using Cache'' ex_world_cached) = cache_writes ex_world_cached"
proof -
  have 1: "open_cache ex_env ex_world_cached = Inr (JObj [(ex_site_url, JStr ''site page'')])"
    by code_simp
  have 2: "map_make_request_with_cache ex_env ex_site_url ex_world_cached =
      (Inr (JStr ''site page''), print ''Using Cache'' ex_world_cached)"
    by code_simp
  have 3: "ex_site_url \<in> set (map fst [(ex_site_url, JStr ''site page'')])"
    by simp
  from cache_hit_no_write [of map_make_request_with_cache, OF _ 2] 1 3 2 show ?thesis
    by simp
qed

section \<open>Properties of the key builder\<close>

lemma param_loop_eq: "param_loop params acc = acc @ map param_string params"
  by (induction params arbitrary: acc) simp_all

lemma sort_cong_mset: "mset xs = mset ys \<Longrightarrow> sort xs = sort (ys :: 'a::linorder list)"
  by (rule properties_for_sort) simp_all

text \<open>
  Claim C2 (order independence). Two dicts (association lists with distinct keys) that
  hold the same key/value pairs, in whatever order, give the same key for every base
  URL.
\<close>

theorem key_order_independent:
  assumes "distinct (map fst P1)" and "distinct (map fst P2)" and "set P1 = set P2"
  shows "construct_unique_key url P1 = construct_unique_key url P2"
proof -
  from assms(1,2) have "distinct P1" "distinct P2"
    by (simp_all add: distinct_map)
  with assms(3) have "mset P1 = mset P2"
    by (simp add: set_eq_iff_mset_eq_distinct)
  then have "mset (map param_string P1) = mset (map param_string P2)"
    by simp
  then have "sort (map param_string P1) = sort (map param_string P2)"
    by (rule sort_cong_mset)
  then show ?thesis
    by (simp add: construct_unique_key_def param_loop_eq)
qed

theorem key_order_independent_witness:
  "construct_unique_key ''http://x/y'' [(''b'', PInt 2), (''a'', PInt 1)] =
   construct_unique_key ''http://x/y'' [(''a'', PInt 1), (''b'', PInt 2)]"
proof -
  have 1: "distinct (map fst [(''b'', PInt 2), (''a'', PInt 1)])"
    by simp
  have 2: "distinct (map fst [(''a'', PInt 1), (''b'', PInt 2)])"
    by simp
  have 3: "set [(''b'', PInt 2), (''a'', PInt 1)] = set [(''a'', PInt 1), (''b'', PInt 2)]"
    by (simp add: insert_commute)
  from key_order_independent [OF 1 2 3] show ?thesis .
qed

text \<open>
  The order of two \<open>key=value\<close> strings is the order of their keys when the longer key
  continues with a character above \<open>=\<close>.
\<close>

lemma param_string_less:
  "k1 < k2 \<Longrightarrow> \<forall>c\<in>set k2. CHR ''='' < c \<Longrightarrow> k1 @ CHR ''='' # s1 < k2 @ CHR ''='' # s2"
proof (induction k1 arbitrary: k2)
  case Nil
  then show ?case by (cases k2) simp_all
next
  case (Cons a k1)
  then show ?case by (cases k2) auto
qed

lemma sorted_param_strings:
  assumes "sorted (map fst ps)" "distinct (map fst ps)"
    and "\<forall>p\<in>set ps. \<forall>c\<in>set (fst p). CHR ''='' < c"
  shows "sorted (map param_string ps)"
  using assms
proof (induction ps)
  case Nil
  then show ?case by simp
next
  case (Cons p ps)
  have "param_string p \<le> param_string q" if q: "q \<in> set ps" for q
  proof -
    from Cons.prems q have "fst p \<le> fst q" "fst p \<noteq> fst q" by auto
    then have "fst p < fst q" by simp
    moreover from Cons.prems q have "\<forall>c\<in>set (fst q). CHR ''='' < c" by simp
    ultimately have "param_string p < param_string q"
      unfolding param_string_def using param_string_less by simp
    then show ?thesis by simp
  qed
  with Cons show ?case by simp
qed

lemma sort_param_strings:
  assumes "distinct (map fst ps)"
    and "\<forall>p\<in>set ps. \<forall>c\<in>set (fst p). CHR ''='' < c"
  shows "sort (map param_string ps) = map param_string (sort_key fst ps)"
proof (rule properties_for_sort)
  show "mset (map param_string (sort_key fst ps)) = mset (map param_string ps)"
    by simp
  have "sorted (map fst (sort_key fst ps))" by simp
  moreover have "distinct (map fst (sort_key fst ps))"
    using assms(1)
    by (metis distinct_sort sort_key_def map_ident mset_map mset_sort mset_eq_imp_distinct_iff)
  moreover have "\<forall>p\<in>set (sort_key fst ps). \<forall>c\<in>set (fst p). CHR ''='' < c"
    using assms(2) by simp
  ultimately show "sorted (map param_string (sort_key fst ps))"
    by (rule sorted_param_strings)
qed

text \<open>
  Claim C3, as stated, at the dict \<open>{"a": 1, "a1": 2}\<close>: the key names are in the order
  \<open>a\<close>, \<open>a1\<close>, but the function sorts the strings \<open>a=1\<close> and \<open>a1=2\<close>, and \<open>1\<close> is below
  \<open>=\<close>.
\<close>

theorem key_not_sorted_by_name:
  "construct_unique_key ''http://x/y'' [(''a'', PInt 1), (''a1'', PInt 2)] = ''http://x/y?a1=2&a=1'' \<and>
   spec_build_key ''http://x/y'' [(''a'', PInt 1), (''a1'', PInt 2)] = ''http://x/y?a=1&a1=2''"
  by code_simp

text \<open>
  Claim C3, amended. The key is the base URL, then \<open>?\<close>, then the \<open>key=value\<close> strings
  joined by \<open>&\<close> after sorting these strings as whole strings. That is the order of the
  key names whenever the keys are distinct and every character of a key is above \<open>=\<close>
  (letters are, digits and most punctuation are not).
\<close>

theorem key_sorted_param_strings:
  "construct_unique_key url params = url @ ''?'' @ join ''&'' (sort (map param_string params)) \<and>
   (distinct (map fst params) \<and> (\<forall>p\<in>set params. \<forall>c\<in>set (fst p). CHR ''='' < c) \<longrightarrow>
      construct_unique_key url params = spec_build_key url params)"
  by (simp add: construct_unique_key_def spec_build_key_def param_loop_eq sort_param_strings)

text \<open>The example of the specification: \<open>{"b": 2, "a": 1}\<close>.\<close>

theorem key_sorted_param_strings_witness:
  "construct_unique_key ''http://x/y'' [(''b'', PInt 2), (''a'', PInt 1)] = ''http://x/y?a=1&b=2''"
proof -
  have 1: "distinct (map fst [(''b'', PInt 2), (''a'', PInt 1)])"
    by simp
  have 2: "\<forall>p\<in>set [(''b'', PInt 2), (''a'', PInt 1)]. \<forall>c\<in>set (fst p). CHR ''='' < c"
    by code_simp
  have 3: "spec_build_key ''http://x/y'' [(''b'', PInt 2), (''a'', PInt 1)] = ''http://x/y?a=1&b=2''"
    by code_simp
  from key_sorted_param_strings [of "''http://x/y''" "[(''b'', PInt 2), (''a'', PInt 1)]"] 1 2
  have "construct_unique_key ''http://x/y'' [(''b'', PInt 2), (''a'', PInt 1)] =
      spec_build_key ''http://x/y'' [(''b'', PInt 2), (''a'', PInt 1)]"
    by blast
  with 3 show ?thesis by (simp only:)
qed

section \<open>Properties of the site fetcher\<close>

text \<open>
  Claim C6 (absent address). Let the page fetched for a site have no \<open>p\<close> element of
  class \<open>adr\<close>. Whenever \<open>get_site_instance\<close> returns a site for it, the address is
  \<open>No address\<close> and the zip code is \<open>No zipcode\<close>; and it does return, without raising,
  whenever the page has the header block and the telephone element that every site page
  is read for.
\<close>

theorem site_without_address:
  assumes fetch: "make_request_with_cache L site_url w = (Inr (JStr page), w')"
    and no_adr: "site_address_parent (BeautifulSoup L page) = None"
  shows "(\<forall>site. fst (get_site_instance L site_url w) = Inr site \<longrightarrow>
            address site = ''No address'' \<and> zipcode site = ''No zipcode'') \<and>
         (\<forall>site_name site_category phone_number.
            site_head (BeautifulSoup L page) = Inr (site_name, site_category) \<and>
            site_phone (BeautifulSoup L page) = Inr phone_number \<longrightarrow>
            get_site_instance L site_url w =
              (Inr \<lparr>category = site_category, name = site_name, address = ''No address'',
                    zipcode = ''No zipcode'', phone = phone_number\<rparr>, w'))"
  using assms
  by (auto simp: get_site_instance_def site_of_soup_def site_zip_address_def andthen_def
      split: sum.splits)

text \<open>A park page with a header and a telephone number, and no address.\<close>

theorem site_without_address_witness:
  "get_site_instance ex_env ex_park_url ex_world =
     (Inr \<lparr>category = ''National Park'', name = ''Yosemite'', address = ''No address'',
           zipcode = ''No zipcode'', phone = ''209/372-0200''\<rparr>,
      \<lparr>cache_file = Some ''{}'', cache_writes = 1, requests_made = [ex_park_url],
        stdout = [''Fetching'']\<rparr>)"
proof -
  have 1: "make_request_with_cache ex_env ex_park_url ex_world =
      (Inr (JStr ''park page''),
       \<lparr>cache_file = Some ''{}'', cache_writes = 1, requests_made = [ex_park_url],
        stdout = [''Fetching'']\<rparr>)"
    by code_simp
  have 2: "site_address_parent (BeautifulSoup ex_env ''park page'') = None"
    by code_simp
  have 3: "site_head (BeautifulSoup ex_env ''park page'') = Inr (''Yosemite'', ''National Park'')"
    by code_simp
  have 4: "site_phone (BeautifulSoup ex_env ''park page'') = Inr ''209/372-0200''"
    by code_simp
  from site_without_address [OF 1 2] 3 4 show ?thesis
    by blast
qed

text \<open>
  Claim C7 (address present), at a page whose locality element holds the text
  \<open>Houghton\<close> with a blank on each side: the postal code and the telephone number are
  stripped, the locality and the region are not, and the address is not the
  \<open>Houghton, MI\<close> that the stripped locality and region would give.
\<close>

theorem site_address_untrimmed:
  "fst (get_site_instance ex_env ex_site_url ex_world) =
     Inr \<lparr>category = ''National Park'', name = ''Isle Royale'', address = '' Houghton , MI'',
          zipcode = ''49931'', phone = ''(906) 482-0984''\<rparr> \<and>
   strip '' Houghton '' @ '', '' @ strip ''MI'' = ''Houghton, MI''"
  by code_simp

section \<open>Properties of the state index\<close>

lemma state_loop_append:
  "state_loop (xs @ ys) d0 =
     (case state_loop xs d0 of Inl e \<Rightarrow> Inl e | Inr d \<Rightarrow> state_loop ys d)"
  by (induction xs arbitrary: d0) (auto split: sum.splits)

lemma state_loop_returns:
  "\<forall>x\<in>set xs. \<not> isl (state_entry x) \<Longrightarrow> \<exists>d. state_loop xs d0 = Inr d"
proof (induction xs arbitrary: d0)
  case Nil
  then show ?case by simp
next
  case (Cons x xs)
  from Cons.prems obtain k u where "state_entry x = Inr (k, u)"
    by (cases "state_entry x") auto
  with Cons show ?case by simp
qed

lemma state_loop_other_keys:
  "\<forall>x\<in>set xs. \<forall>u. state_entry x \<noteq> Inr (k, u) \<Longrightarrow> state_loop xs d0 = Inr d \<Longrightarrow>
   map_of d k = map_of d0 k"
proof (induction xs arbitrary: d0)
  case Nil
  then show ?case by simp
next
  case (Cons x xs)
  from Cons.prems(2) obtain k' u' where x: "state_entry x = Inr (k', u')"
    and rest: "state_loop xs (setitem d0 k' u') = Inr d"
    by (cases "state_entry x") (auto split: prod.splits)
  from Cons.prems(1) x have "k' \<noteq> k" by auto
  moreover from Cons.prems(1) have "\<forall>x\<in>set xs. \<forall>u. state_entry x \<noteq> Inr (k, u)" by simp
  from Cons.IH [OF this rest] have "map_of d k = map_of (setitem d0 k' u') k" .
  ultimately show ?case by (simp add: map_of_setitem)
qed

lemma state_entry_link:
  assumes "soup_find (Some ''a'') [] state_info = Some state_tag"
    and "tag_getitem state_tag ''href'' = Inr (Single href)"
    and "tag_string state_tag = Some state_name"
  shows "state_entry state_info = Inr (lower state_name, BASE_URL @ href)"
  using assms by (simp add: state_entry_def getitem_of_def string_of_def andthen_def)

text \<open>The last entry of a name decides what the index holds for it.\<close>

lemma state_loop_last_wins:
  assumes entry: "state_entry state_info = Inr (k, u)"
    and wellformed: "\<forall>x\<in>set (earlier @ later). \<not> isl (state_entry x)"
    and last: "\<forall>x\<in>set later. \<forall>u'. state_entry x \<noteq> Inr (k, u')"
  shows "\<exists>d. state_loop (earlier @ state_info # later) d0 = Inr d \<and> map_of d k = Some u"
proof -
  from wellformed obtain d1 where d1: "state_loop earlier d0 = Inr d1"
    using state_loop_returns [of earlier d0] by auto
  from wellformed obtain d where d: "state_loop later (setitem d1 k u) = Inr d"
    using state_loop_returns [of later "setitem d1 k u"] by auto
  from state_loop_other_keys [OF last d] have "map_of d k = Some u"
    by (simp add: map_of_setitem)
  moreover have "state_loop (earlier @ state_info # later) d0 = Inr d"
    by (simp add: state_loop_append d1 entry d)
  ultimately show ?thesis by blast
qed

text \<open>
  Claim C8, as stated, at a homepage whose entry for Michigan links to the absolute URL
  \<open>https://www.nps.gov/state/mi/index.htm\<close>: the base origin is put in front of it all
  the same, and the index does not hold the URL that resolution would leave as it is.
\<close>

theorem state_index_absolute_href:
  "fst (build_state_url_dict ex_env_absolute ex_world) =
     Inr [(''michigan'', ''https://www.nps.govhttps://www.nps.gov/state/mi/index.htm'')] \<and>
   spec_resolve ''https://www.nps.gov/state/mi/index.htm'' = ''https://www.nps.gov/state/mi/index.htm''"
  by code_simp

text \<open>
  Claim C8, amended. Let the homepage be fetched, let it have the navigation widget,
  and let every \<open>li\<close> of the widget be an entry: a link with an \<open>href\<close> and a single text.
  For an entry with the name \<open>state_name\<close> and the link \<open>href\<close> after which no entry has
  the same name in lower case, the index maps the name in lower case to \<open>BASE_URL\<close>
  followed by \<open>href\<close>, whatever \<open>href\<close> is; for a relative path this is the resolved URL.
\<close>

theorem state_index_entry:
  assumes fetch: "make_request_with_cache L main_url w = (Inr (JStr page), w')"
    and widget: "soup_find (Some ''div'') [(''class'', state_list_class)] (BeautifulSoup L page)
                   = Some state_list_parent"
    and items: "soup_find_all (Some ''li'') [] state_list_parent = earlier @ state_info # later"
    and link: "soup_find (Some ''a'') [] state_info = Some state_tag"
    and href: "tag_getitem state_tag ''href'' = Inr (Single href)"
    and label: "tag_string state_tag = Some state_name"
    and wellformed: "\<forall>x\<in>set (earlier @ later). \<not> isl (state_entry x)"
    and last: "\<forall>x\<in>set later. \<forall>u. state_entry x \<noteq> Inr (lower state_name, u)"
  shows "\<exists>index. build_state_url_dict L w = (Inr index, w') \<and>
           map_of index (lower state_name) = Some (BASE_URL @ href) \<and>
           (is_relative_path href \<longrightarrow> map_of index (lower state_name) = Some (spec_resolve href))"
proof -
  from state_loop_last_wins [OF state_entry_link [OF link href label] wellformed last]
  obtain index where "state_loop (earlier @ state_info # later) [] = Inr index"
    and "map_of index (lower state_name) = Some (BASE_URL @ href)"
    by blast
  then show ?thesis
    using fetch widget items
    by (simp add: build_state_url_dict_def find_all_in_def andthen_def spec_resolve_def)
qed

text \<open>The example of the specification: the entry \<open>Michigan\<close>, \<open>/state/mi/index.htm\<close>.\<close>

theorem state_index_entry_witness:
  "\<exists>index. build_state_url_dict ex_env ex_world =
      (Inr index, \<lparr>cache_file = Some ''{}'', cache_writes = 1, requests_made = [main_url],
                   stdout = [''Fetching'']\<rparr>) \<and>
     map_of index ''michigan'' = Some ''https://www.nps.gov/state/mi/index.htm''"
proof -
  have 1: "make_request_with_cache ex_env main_url ex_world =
      (Inr (JStr ''home page''),
       \<lparr>cache_file = Some ''{}'', cache_writes = 1, requests_made = [main_url],
        stdout = [''Fetching'']\<rparr>)"
    by code_simp
  have 2: "soup_find (Some ''div'') [(''class'', state_list_class)] (BeautifulSoup ex_env ''home page'')
      = Some (Tag ''div'' [(''class'', Multi [''SearchBar-keywordSearch'', ''input-group'', ''input-group-lg''])]
        [Tag ''ul'' []
           [Tag ''li'' [] [Tag ''a'' [(''href'', Single ''/state/mi/index.htm'')] [NavigableString ''Michigan'']]]])"
    by code_simp
  have 3: "soup_find_all (Some ''li'') []
       (Tag ''div'' [(''class'', Multi [''SearchBar-keywordSearch'', ''input-group'', ''input-group-lg''])]
        [Tag ''ul'' []
           [Tag ''li'' [] [Tag ''a'' [(''href'', Single ''/state/mi/index.htm'')] [NavigableString ''Michigan'']]]])
      = [] @ Tag ''li'' [] [Tag ''a'' [(''href'', Single ''/state/mi/index.htm'')] [NavigableString ''Michigan'']] # []"
    by code_simp
  have 4: "soup_find (Some ''a'') []
       (Tag ''li'' [] [Tag ''a'' [(''href'', Single ''/state/mi/index.htm'')] [NavigableString ''Michigan'']])
      = Some (Tag ''a'' [(''href'', Single ''/state/mi/index.htm'')] [NavigableString ''Michigan''])"
    by code_simp
  have 5: "tag_getitem (Tag ''a'' [(''href'', Single ''/state/mi/index.htm'')] [NavigableString ''Michigan''])
       ''href'' = Inr (Single ''/state/mi/index.htm'')"
    by simp
  have 6: "tag_string (Tag ''a'' [(''href'', Single ''/state/mi/index.htm'')] [NavigableString ''Michigan''])
      = Some ''Michigan''"
    by simp
  have 7: "lower ''Michigan'' = ''michigan''"
    "BASE_URL @ ''/state/mi/index.htm'' = ''https://www.nps.gov/state/mi/index.htm''"
    by code_simp+
  from state_index_entry [OF 1 2 3 4 5 6] 7 show ?thesis
    by auto
qed

section \<open>Properties of the places rendering\<close>

lemma place_line_entry: "place_entry result p \<Longrightarrow> place_line L result = Inr (spec_place_line p)"
  by (cases p)
    (simp add: place_entry_def place_line_def spec_place_line_def or_placeholder_def andthen_def)

lemma places_loop_entries:
  "list_all2 place_entry results ps \<Longrightarrow>
   places_loop L results w = (Inr (), w\<lparr>stdout := stdout w @ map spec_place_line ps\<rparr>)"
proof (induction results ps arbitrary: w rule: list_all2_induct)
  case Nil
  then show ?case by simp
next
  case (Cons result results p ps)
  then show ?case by (simp add: place_line_entry print_def)
qed

text \<open>
  Claim C9 (places rendering). Let the result hold, under \<open>searchResults\<close>, a list of
  entries, each with a name and, under \<open>fields\<close>, a category, an address and a city, all
  four of them strings. Then \<open>print_nearby_places\<close> prints, after what was printed
  before, one line for each entry, in order: \<open>- name (category): address, city\<close>, with
  \<open>no category\<close>, \<open>no address\<close> or \<open>no city\<close> in place of an empty string and every other
  string as it is; and it does not raise.
\<close>

theorem places_rendering:
  assumes "getitem map_api_dict ''searchResults'' = Inr (JArr results)"
    and "list_all2 place_entry results ps"
  shows "print_nearby_places L map_api_dict w =
           (Inr (), w\<lparr>stdout := stdout w @ map spec_place_line ps\<rparr>)"
  using assms by (simp add: print_nearby_places_def andthen_def places_loop_entries)

text \<open>A place without a category and without a city.\<close>

theorem places_rendering_witness:
  "print_nearby_places ex_env ex_places ex_world =
     (Inr (), ex_world\<lparr>stdout := [''- Suomi Cafe (no category): 54 Huron St, no city'']\<rparr>)"
proof -
  have 1: "getitem ex_places ''searchResults'' = Inr (JArr
     [JObj [(''name'', JStr ''Suomi Cafe''),
            (''fields'', JObj [(''group_sic_code_name'', JStr ''''),
                               (''address'', JStr ''54 Huron St''),
                               (''city'', JStr '''')])]])"
    by (simp add: ex_places_def)
  have 2: "list_all2 place_entry
     [JObj [(''name'', JStr ''Suomi Cafe''),
            (''fields'', JObj [(''group_sic_code_name'', JStr ''''),
                               (''address'', JStr ''54 Huron St''),
                               (''city'', JStr '''')])]]
     [(''Suomi Cafe'', '''', ''54 Huron St'', '''')]"
    by (simp add: place_entry_def field_of_def andthen_def)
  show ?thesis
    using places_rendering [OF 1 2, of ex_env ex_world]
    by (simp add: spec_place_line_def ex_world_def)
qed

end
